theory Spec2Isabelle
  imports Main "HOL-Library.Word"
begin

section \<open>Shard identifiers (core/address.go)\<close>

type_synonym bytes = "8 word list"

definition metaChainIdentifier :: "8 word" where
  "metaChainIdentifier = 255"

text \<open>
  \<^verbatim>\<open>IsMetaChainShardId\<close> walks the identifier from index 0 and returns false at the first
  byte that differs from \<^verbatim>\<open>metaChainIdentifier\<close>; falling out of the loop returns true.
\<close>

fun IsMetaChainShardId :: "bytes \<Rightarrow> bool" where
  "IsMetaChainShardId [] = True"
| "IsMetaChainShardId (b # rest) =
     (if b \<noteq> metaChainIdentifier then False else IsMetaChainShardId rest)"

section \<open>Consensus data model (package bn, commitment subround)\<close>

text \<open>
  The commitment subround lives in the last part of \<^verbatim>\<open>src/node/heartbeat/monitor.go\<close>
  (package \<^verbatim>\<open>bn\<close>). The \<^verbatim>\<open>spos\<close> package it calls into (ConsensusState, the
  consensus message, the constants) is not among the sources of this development; those pieces are
  modelled from the specification and marked as such.
\<close>

datatype Error =
    ErrNilSubround
  | ErrNilConsensusState
  | ErrNilSendConsensusMessageFunction
  | ErrInvalidConsensusCore
  | NodeNotInGroup
  | InvalidSubround
  | ErrMultiSigner

text \<open>
  Modelled from the spec: the subround identifiers, whose constant declarations are
  missing. The controller sequence is StartRound, Block, Bitmap, Commitment, Signature,
  EndRound. The type has exactly these six values, so an unknown identifier cannot be
  written down.
\<close>

datatype SubroundId = SrStartRound | SrBlock | SrBitmap | SrCommitment | SrSignature | SrEndRound

text \<open>Modelled from the spec: the tri-state status of a subround.\<close>

datatype SubroundStatus = SsNotFinished | SsExtended | SsFinished

text \<open>Modelled from the spec: the message-type tag of an inbound consensus message.\<close>

datatype MessageType = MtStartRound | MtBlock | MtBitmap | MtCommitment | MtSignature

text \<open>
  Modelled from the spec: the consensus message (its type declaration is missing). The
  fields follow the argument order of \<^verbatim>\<open>consensus.NewConsensusMessage\<close> as called in
  \<^verbatim>\<open>doCommitmentJob\<close>, with the names \<^verbatim>\<open>receivedCommitment\<close> reads. A nil byte slice
  is the empty list; a public key travels as a string of bytes.
\<close>

record Message =
  BlockHeaderHash :: bytes
  SubRoundData :: bytes
  PubKey :: string
  Signature :: bytes
  MsgType :: MessageType
  TimeStamp :: "64 word"
  RoundIndex :: int

definition NewConsensusMessage ::
  "bytes \<Rightarrow> bytes \<Rightarrow> string \<Rightarrow> bytes \<Rightarrow> MessageType \<Rightarrow> 64 word \<Rightarrow> int \<Rightarrow> Message" where
  "NewConsensusMessage blHeaderHash subRoundData pubKey sig msgType tmStamp roundIndex =
     \<lparr>BlockHeaderHash = blHeaderHash, SubRoundData = subRoundData, PubKey = pubKey,
      Signature = sig, MsgType = msgType, TimeStamp = tmStamp, RoundIndex = roundIndex\<rparr>"

text \<open>
  Modelled from the spec: ConsensusState, the per-round bookkeeping. \<^verbatim>\<open>Data\<close> is the
  agreed hash, \<open>None\<close> while it is nil; \<^verbatim>\<open>jobStatus\<close> is the validator-by-subround table of
  job-done flags (a missing entry of a Go map reads as false); \<^verbatim>\<open>threshold\<close> and
  \<^verbatim>\<open>status\<close> are the per-subround tables.
\<close>

record ConsensusState =
  Data :: "bytes option"
  RoundCanceled :: bool
  consensusGroup :: "string list"
  selfPubKey :: string
  jobStatus :: "string \<Rightarrow> SubroundId \<Rightarrow> bool"
  threshold :: "SubroundId \<Rightarrow> int"
  status :: "SubroundId \<Rightarrow> SubroundStatus"

text \<open>
  The subround embeds the ConsensusState. What the operations reach through the
  consensus core is carried next to it: the multi-signer's CommitmentStore (index to
  commitment, keyed by the \<^verbatim>\<open>uint16\<close> the code converts the index to) and the trace of
  messages handed to the send callback.
\<close>

record subround = ConsensusState +
  commitmentStore :: "16 word \<rightharpoonup> bytes"
  sent :: "Message list"

text \<open>
  The external collaborators whose behaviour the consensus layer only consumes: the
  multi-signer's \<^verbatim>\<open>Commitment(index)\<close> and the outcome of its \<^verbatim>\<open>StoreCommitment\<close> validation,
  the send callback, the rounder's index and time stamp (Unix seconds), and
  \<^verbatim>\<open>CanDoSubroundJob\<close>, on which the specification is silent.
\<close>

record Collaborators =
  CanDoSubroundJob :: "subround \<Rightarrow> SubroundId \<Rightarrow> bool"
  multiSignerCommitment :: "16 word \<Rightarrow> Error + bytes"
  multiSignerStoreCheck :: "16 word \<Rightarrow> bytes \<Rightarrow> Error option"
  sendConsensusMessage :: "Message \<Rightarrow> bool"
  rounderIndex :: int
  rounderTimeStamp :: int

subsection \<open>ConsensusState accessors\<close>

text \<open>
  Modelled from the spec: \<^verbatim>\<open>JobDone(nodeId, subround) -> (bool, error)\<close> fails with
  NodeNotInGroup if the node is absent from the ConsensusGroup.
\<close>

definition JobDone :: "'a ConsensusState_scheme \<Rightarrow> string \<Rightarrow> SubroundId \<Rightarrow> Error + bool" where
  "JobDone cns node subroundId =
     (if node \<in> set (consensusGroup cns) then Inr (jobStatus cns node subroundId)
      else Inl NodeNotInGroup)"

text \<open>
  Modelled from the spec: \<^verbatim>\<open>SetJobDone(nodeId, subround, done) -> error\<close>, failing with
  NodeNotInGroup (and changing nothing) if the node is absent from the ConsensusGroup.
\<close>

definition SetJobDone ::
  "'a ConsensusState_scheme \<Rightarrow> string \<Rightarrow> SubroundId \<Rightarrow> bool
     \<Rightarrow> Error option \<times> 'a ConsensusState_scheme" where
  "SetJobDone cns node subroundId done =
     (if node \<in> set (consensusGroup cns)
      then (None, cns\<lparr>jobStatus := (jobStatus cns)(node := (jobStatus cns node)(subroundId := done))\<rparr>)
      else (Some NodeNotInGroup, cns))"

text \<open>
  Modelled from the spec: the boolean view of \<^verbatim>\<open>JobDone\<close> ("the sender is marked done"),
  false when the lookup fails.
\<close>

definition IsJobDone :: "'a ConsensusState_scheme \<Rightarrow> string \<Rightarrow> SubroundId \<Rightarrow> bool" where
  "IsJobDone cns node subroundId =
     (case JobDone cns node subroundId of Inl err \<Rightarrow> False | Inr isJobDone \<Rightarrow> isJobDone)"

text \<open>Modelled from the spec: \<^verbatim>\<open>IsSelfJobDone(subround) -> bool\<close>, the local validator's flag.\<close>

definition IsSelfJobDone :: "'a ConsensusState_scheme \<Rightarrow> SubroundId \<Rightarrow> bool" where
  "IsSelfJobDone cns subroundId = IsJobDone cns (selfPubKey cns) subroundId"

text \<open>
  Modelled from the spec: \<^verbatim>\<open>SetSelfJobDone(subround, done) -> error\<close> records completion
  for the local validator. Every value of \<^typ>\<open>SubroundId\<close> is a known identifier, so
  the failure left is the one of \<^verbatim>\<open>SetJobDone\<close> for the local validator's key.
\<close>

definition SetSelfJobDone ::
  "'a ConsensusState_scheme \<Rightarrow> SubroundId \<Rightarrow> bool \<Rightarrow> Error option \<times> 'a ConsensusState_scheme" where
  "SetSelfJobDone cns subroundId done = SetJobDone cns (selfPubKey cns) subroundId done"

text \<open>Modelled from the spec: \<^verbatim>\<open>Threshold(subround) -> int\<close>.\<close>

definition Threshold :: "'a ConsensusState_scheme \<Rightarrow> SubroundId \<Rightarrow> int" where
  "Threshold cns subroundId = threshold cns subroundId"

text \<open>Modelled from the spec: \<^verbatim>\<open>Status(subround)\<close> and \<^verbatim>\<open>SetStatus(subround, status)\<close>.\<close>

definition Status :: "'a ConsensusState_scheme \<Rightarrow> SubroundId \<Rightarrow> SubroundStatus" where
  "Status cns subroundId = status cns subroundId"

definition SetStatus ::
  "'a ConsensusState_scheme \<Rightarrow> SubroundId \<Rightarrow> SubroundStatus \<Rightarrow> 'a ConsensusState_scheme" where
  "SetStatus cns subroundId subroundStatus =
     cns\<lparr>status := (status cns)(subroundId := subroundStatus)\<rparr>"

text \<open>
  Modelled from the spec: \<^verbatim>\<open>IsConsensusDataSet\<close> and \<^verbatim>\<open>IsConsensusDataEqual\<close>, the exact
  byte comparison against RoundData (a nil slice compares as the empty one).
\<close>

definition IsConsensusDataSet :: "'a ConsensusState_scheme \<Rightarrow> bool" where
  "IsConsensusDataSet cns = (Data cns \<noteq> None)"

definition IsConsensusDataEqual :: "'a ConsensusState_scheme \<Rightarrow> bytes \<Rightarrow> bool" where
  "IsConsensusDataEqual cns candidate =
     (case Data cns of None \<Rightarrow> candidate = [] | Some roundData \<Rightarrow> roundData = candidate)"

text \<open>
  Modelled from the spec: the index of a validator in the ordered ConsensusGroup, failing
  with NodeNotInGroup when it is absent.
\<close>

fun groupIndexFrom :: "string list \<Rightarrow> string \<Rightarrow> int \<Rightarrow> Error + int" where
  "groupIndexFrom [] node i = Inl NodeNotInGroup"
| "groupIndexFrom (pubKey # rest) node i =
     (if pubKey = node then Inr i else groupIndexFrom rest node (i + 1))"

definition ConsensusGroupIndex :: "'a ConsensusState_scheme \<Rightarrow> string \<Rightarrow> Error + int" where
  "ConsensusGroupIndex cns node = groupIndexFrom (consensusGroup cns) node 0"

definition SelfConsensusGroupIndex :: "'a ConsensusState_scheme \<Rightarrow> Error + int" where
  "SelfConsensusGroupIndex cns = ConsensusGroupIndex cns (selfPubKey cns)"

text \<open>
  Modelled from the spec: the generic "processable" check of a received message: correct
  round index, not a duplicate (the sender's job for the subround is not done yet),
  sender in the group.
\<close>

definition CanProcessReceivedMessage ::
  "'a ConsensusState_scheme \<Rightarrow> Message \<Rightarrow> int \<Rightarrow> SubroundId \<Rightarrow> bool" where
  "CanProcessReceivedMessage cns cnsDta currentRoundIndex currentSubroundId =
     (RoundIndex cnsDta = currentRoundIndex
      \<and> \<not> IsJobDone cns (PubKey cnsDta) currentSubroundId
      \<and> PubKey cnsDta \<in> set (consensusGroup cns))"

text \<open>
  Modelled from the spec: \<^verbatim>\<open>StoreCommitment(index, bytes) -> error\<close> of the multi-signer.
  The signer may refuse the commitment; entries of the CommitmentStore are append-only
  within a round, a later message for the same index does not overwrite.
\<close>

definition StoreCommitment ::
  "Collaborators \<Rightarrow> subround \<Rightarrow> 16 word \<Rightarrow> bytes \<Rightarrow> Error option \<times> subround" where
  "StoreCommitment env sr index commitment =
     (case multiSignerStoreCheck env index commitment of
        Some err \<Rightarrow> (Some err, sr)
      | None \<Rightarrow>
          (None, sr\<lparr>commitmentStore :=
                      (if commitmentStore sr index = None
                       then (commitmentStore sr)(index \<mapsto> commitment)
                       else commitmentStore sr)\<rparr>))"

text \<open>A slice that may be nil, read as its bytes.\<close>

definition sliceBytes :: "bytes option \<Rightarrow> bytes" where
  "sliceBytes maybeNil = (case maybeNil of None \<Rightarrow> [] | Some bs \<Rightarrow> bs)"

section \<open>The commitment subround (subroundCommitment)\<close>

subsection \<open>Construction\<close>

text \<open>
  The constructor works on pointers and function values that may be nil, so its arguments
  are options. \<^verbatim>\<open>jobFn\<close>, \<open>checkFn\<close> and \<open>extendFn\<close> stand for the \<^verbatim>\<open>job\<close>, \<^verbatim>\<open>check\<close> and
  \<^verbatim>\<open>extend\<close> fields of the subround; the two method values the constructor binds are
  named by a tag. The consensus core handler is kept abstract, and
  \<^verbatim>\<open>spos.ValidateConsensusCore\<close>, which is not among the sources, is a parameter.
\<close>

datatype Behaviour = DoCommitmentJob | DoCommitmentConsensusCheck

record 'core subroundObject =
  srConsensusState :: "ConsensusState option"
  srConsensusCoreHandler :: 'core
  jobFn :: "Behaviour option"
  checkFn :: "Behaviour option"
  extendFn :: "(int \<Rightarrow> unit) option"

record 'core subroundCommitment =
  embeddedSubround :: "'core subroundObject"
  sendConsensusMessageFn :: "(Message \<Rightarrow> bool) option"

definition checkNewSubroundCommitmentParams ::
  "('core \<Rightarrow> Error option) \<Rightarrow> 'core subroundObject option \<Rightarrow> (Message \<Rightarrow> bool) option
     \<Rightarrow> Error option" where
  "checkNewSubroundCommitmentParams ValidateConsensusCore subroundPtr sendMsg =
     (case subroundPtr of
        None \<Rightarrow> Some ErrNilSubround
      | Some sr \<Rightarrow>
          if srConsensusState sr = None then Some ErrNilConsensusState
          else if sendMsg = None then Some ErrNilSendConsensusMessageFunction
          else ValidateConsensusCore (srConsensusCoreHandler sr))"

text \<open>
  \<open>Inl err\<close> is the return \<^verbatim>\<open>nil, err\<close>; \<open>Inr obj\<close> is the return of the new object with
  a nil error. The parameter check has already returned for a nil subround, so the
  constructor's body only ever runs on \<open>Some sr\<close>.
\<close>

definition NewSubroundCommitment ::
  "('core \<Rightarrow> Error option) \<Rightarrow> 'core subroundObject option \<Rightarrow> (Message \<Rightarrow> bool) option
     \<Rightarrow> (int \<Rightarrow> unit) option \<Rightarrow> Error + 'core subroundCommitment" where
  "NewSubroundCommitment ValidateConsensusCore subroundPtr sendMsg extendArg =
     (case checkNewSubroundCommitmentParams ValidateConsensusCore subroundPtr sendMsg of
        Some err \<Rightarrow> Inl err
      | None \<Rightarrow>
          (case subroundPtr of
             None \<Rightarrow> Inl ErrNilSubround
           | Some sr \<Rightarrow>
               Inr \<lparr>embeddedSubround =
                      sr\<lparr>jobFn := Some DoCommitmentJob,
                         checkFn := Some DoCommitmentConsensusCheck,
                         extendFn := extendArg\<rparr>,
                    sendConsensusMessageFn = sendMsg\<rparr>))"

subsection \<open>doCommitmentJob\<close>

text \<open>
  The job returns its boolean and the state it leaves. Logging is not modelled. The
  message handed to the send callback is appended to \<^verbatim>\<open>sent\<close> whatever the callback
  answers. \<^verbatim>\<open>uint16(selfIndex)\<close> and \<^verbatim>\<open>uint64(...Unix())\<close> are the truncating conversions.
\<close>

definition doCommitmentJob :: "Collaborators \<Rightarrow> subround \<Rightarrow> bool \<times> subround" where
  "doCommitmentJob env sr =
     (if \<not> IsSelfJobDone sr SrBitmap then (False, sr)
      else if \<not> CanDoSubroundJob env sr SrCommitment then (False, sr)
      else
        (case SelfConsensusGroupIndex sr of
           Inl err \<Rightarrow> (False, sr)
         | Inr selfIndex \<Rightarrow>
             (case multiSignerCommitment env (word_of_int selfIndex) of
                Inl err \<Rightarrow> (False, sr)
              | Inr commitment \<Rightarrow>
                  (let msg = NewConsensusMessage (sliceBytes (Data sr)) commitment
                               (selfPubKey sr) [] MtCommitment
                               (word_of_int (rounderTimeStamp env)) (rounderIndex env);
                       sr1 = sr\<lparr>sent := sent sr @ [msg]\<rparr>
                   in if \<not> sendConsensusMessage env msg then (False, sr1)
                      else
                        (case SetSelfJobDone sr1 SrCommitment True of
                           (Some err, sr2) \<Rightarrow> (False, sr2)
                         | (None, sr2) \<Rightarrow> (True, sr2))))))"

text \<open>The message \<^verbatim>\<open>doCommitmentJob\<close> builds around a commitment, under a name.\<close>

definition commitmentMessage :: "Collaborators \<Rightarrow> subround \<Rightarrow> bytes \<Rightarrow> Message" where
  "commitmentMessage env sr commitment =
     NewConsensusMessage (sliceBytes (Data sr)) commitment (selfPubKey sr) [] MtCommitment
       (word_of_int (rounderTimeStamp env)) (rounderIndex env)"

subsection \<open>commitmentsCollected\<close>

text \<open>
  The loop runs over the indices of the consensus group in order and reads the group
  member at each; the state is not written inside it, so it is a recursion over the list
  of members with the counter \<open>n\<close>. \<open>None\<close> is the early \<^verbatim>\<open>return false\<close>, \<open>Some n\<close> the
  counter on leaving the loop. A failing \<^verbatim>\<open>JobDone\<close> is the \<^verbatim>\<open>continue\<close>.
\<close>

fun commitmentsCollectedLoop :: "subround \<Rightarrow> string list \<Rightarrow> int \<Rightarrow> int option" where
  "commitmentsCollectedLoop sr [] n = Some n"
| "commitmentsCollectedLoop sr (node # rest) n =
     (case JobDone sr node SrBitmap of
        Inl err \<Rightarrow> commitmentsCollectedLoop sr rest n
      | Inr isBitmapJobDone \<Rightarrow>
          if isBitmapJobDone then
            (case JobDone sr node SrCommitment of
               Inl err \<Rightarrow> commitmentsCollectedLoop sr rest n
             | Inr isCommJobDone \<Rightarrow>
                 if \<not> isCommJobDone then None
                 else commitmentsCollectedLoop sr rest (n + 1))
          else commitmentsCollectedLoop sr rest n)"

definition commitmentsCollected :: "subround \<Rightarrow> int \<Rightarrow> bool" where
  "commitmentsCollected sr thresholdArg =
     (case commitmentsCollectedLoop sr (consensusGroup sr) 0 of
        None \<Rightarrow> False
      | Some n \<Rightarrow> n \<ge> thresholdArg)"

subsection \<open>receivedCommitment\<close>

text \<open>
  The closing \<^verbatim>\<open>commitmentsCollected\<close> test of the source only chooses whether to log, so
  it leaves no trace here.
\<close>

definition receivedCommitment :: "Collaborators \<Rightarrow> subround \<Rightarrow> Message \<Rightarrow> bool \<times> subround" where
  "receivedCommitment env sr cnsDta =
     (let node = PubKey cnsDta in
      if \<not> IsConsensusDataSet sr then (False, sr)
      else if \<not> IsConsensusDataEqual sr (BlockHeaderHash cnsDta) then (False, sr)
      else if \<not> IsJobDone sr node SrBitmap then (False, sr)
      else if \<not> CanProcessReceivedMessage sr cnsDta (rounderIndex env) SrCommitment
        then (False, sr)
      else
        (case ConsensusGroupIndex sr node of
           Inl err \<Rightarrow> (False, sr)
         | Inr index \<Rightarrow>
             (case StoreCommitment env sr (word_of_int index) (SubRoundData cnsDta) of
                (Some err, sr1) \<Rightarrow> (False, sr1)
              | (None, sr1) \<Rightarrow>
                  (case SetJobDone sr1 node SrCommitment True of
                     (Some err, sr2) \<Rightarrow> (False, sr2)
                   | (None, sr2) \<Rightarrow> (True, sr2)))))"

subsection \<open>doCommitmentConsensusCheck\<close>

definition doCommitmentConsensusCheck :: "subround \<Rightarrow> bool \<times> subround" where
  "doCommitmentConsensusCheck sr =
     (if RoundCanceled sr then (False, sr)
      else if Status sr SrCommitment = SsFinished then (True, sr)
      else if commitmentsCollected sr (Threshold sr SrCommitment)
        then (True, SetStatus sr SrCommitment SsFinished)
      else (False, sr))"

section \<open>Notions of the specification\<close>

text \<open>
  The count the specification speaks of: the consensus-group members whose Bitmap job and
  Commitment job are both done.
\<close>

definition bitmapCommitmentCount :: "subround \<Rightarrow> int" where
  "bitmapCommitmentCount sr =
     int (length (filter (\<lambda>node. IsJobDone sr node SrBitmap \<and> IsJobDone sr node SrCommitment)
                         (consensusGroup sr)))"

text \<open>Coverage of the bitmap: no member with the Bitmap job done lacks its Commitment job.\<close>

definition bitmapCovered :: "subround \<Rightarrow> bool" where
  "bitmapCovered sr =
     list_all (\<lambda>node. IsJobDone sr node SrBitmap \<longrightarrow> IsJobDone sr node SrCommitment)
              (consensusGroup sr)"

text \<open>
  The CommitmentStore invariant of the data model: an entry exists only at an index of
  the group whose validator has its Commitment job done.
\<close>

definition commitmentStoreInvariant :: "subround \<Rightarrow> bool" where
  "commitmentStoreInvariant sr \<longleftrightarrow>
     (\<forall>index. commitmentStore sr index \<noteq> None \<longrightarrow>
        unat index < length (consensusGroup sr)
        \<and> IsJobDone sr (consensusGroup sr ! unat index) SrCommitment)"

text \<open>
  The states a round passes through while the operations of the commitment subround run
  on it in any order, each with whatever the collaborators answer at that moment.
\<close>

inductive commitmentRun :: "subround \<Rightarrow> subround \<Rightarrow> bool" for sr0 :: subround where
  run_start: "commitmentRun sr0 sr0"
| run_job: "commitmentRun sr0 sr \<Longrightarrow> commitmentRun sr0 (snd (doCommitmentJob env sr))"
| run_received:
    "commitmentRun sr0 sr \<Longrightarrow> commitmentRun sr0 (snd (receivedCommitment env sr cnsDta))"
| run_check: "commitmentRun sr0 sr \<Longrightarrow> commitmentRun sr0 (snd (doCommitmentConsensusCheck sr))"

section \<open>Example rounds\<close>

text \<open>
  A group of three validators with the local node first. The rounds below differ in the
  job-done table and share the Commitment threshold 2.
\<close>

definition exampleRound :: "(string \<Rightarrow> SubroundId \<Rightarrow> bool) \<Rightarrow> int \<Rightarrow> subround" where
  "exampleRound jobs commitmentThreshold =
     \<lparr>Data = Some [1, 2, 3], RoundCanceled = False,
      consensusGroup = [''v1'', ''v2'', ''v3''], selfPubKey = ''v1'',
      jobStatus = jobs, threshold = (\<lambda>subroundId. commitmentThreshold),
      status = (\<lambda>subroundId. SsNotFinished),
      commitmentStore = Map.empty, sent = []\<rparr>"

text \<open>All three validators are in the bitmap; v1 and v2 have delivered their commitment.\<close>

definition partialCoverageRound :: subround where
  "partialCoverageRound =
     exampleRound (\<lambda>node subroundId. subroundId = SrBitmap
                     \<or> (subroundId = SrCommitment \<and> (node = ''v1'' \<or> node = ''v2''))) 2"

text \<open>Only v1 and v2 are in the bitmap, and both have delivered their commitment.\<close>

definition fullCoverageRound :: subround where
  "fullCoverageRound =
     exampleRound (\<lambda>node subroundId. (node = ''v1'' \<or> node = ''v2'')
                     \<and> (subroundId = SrBitmap \<or> subroundId = SrCommitment)) 2"

text \<open>All three validators are in the bitmap and no commitment has arrived yet.\<close>

definition bitmapOnlyRound :: subround where
  "bitmapOnlyRound = exampleRound (\<lambda>node subroundId. subroundId = SrBitmap) 2"

text \<open>
  The full-coverage round after its check has finished the subround and a later phase's
  timeout has canceled the round.
\<close>

definition canceledAfterFinish :: subround where
  "canceledAfterFinish =
     (snd (doCommitmentConsensusCheck fullCoverageRound))\<lparr>RoundCanceled := True\<rparr>"

definition exampleCollaborators :: Collaborators where
  "exampleCollaborators =
     \<lparr>CanDoSubroundJob = (\<lambda>sr subroundId. \<not> IsSelfJobDone sr subroundId),
      multiSignerCommitment = (\<lambda>index. Inr [7]),
      multiSignerStoreCheck =
        (\<lambda>index commitment. if commitment = [] then Some ErrMultiSigner else None),
      sendConsensusMessage = (\<lambda>msg. True),
      rounderIndex = 4, rounderTimeStamp = 1000\<rparr>"

definition commitmentFromV2 :: Message where
  "commitmentFromV2 = NewConsensusMessage [1, 2, 3] [9] ''v2'' [] MtCommitment 1000 4"

definition commitmentFromV3 :: Message where
  "commitmentFromV3 = NewConsensusMessage [1, 2, 3] [8] ''v3'' [] MtCommitment 1000 4"

definition exampleConsensusState :: ConsensusState where
  "exampleConsensusState =
     \<lparr>Data = None, RoundCanceled = False,
      consensusGroup = [''v1'', ''v2'', ''v3''], selfPubKey = ''v1'',
      jobStatus = (\<lambda>node subroundId. False), threshold = (\<lambda>subroundId. 2),
      status = (\<lambda>subroundId. SsNotFinished)\<rparr>"

definition exampleSubroundObject :: "unit subroundObject" where
  "exampleSubroundObject =
     \<lparr>srConsensusState = Some exampleConsensusState, srConsensusCoreHandler = (),
      jobFn = None, checkFn = None, extendFn = None\<rparr>"

text \<open>
  The state inside \<^verbatim>\<open>receivedCommitment\<close> on \<^const>\<open>commitmentFromV2\<close> in
  \<^const>\<open>bitmapOnlyRound\<close>, after \<^verbatim>\<open>StoreCommitment\<close> has returned and before
  \<^verbatim>\<open>SetJobDone\<close> is called.
\<close>

definition betweenStoreAndFlag :: subround where
  "betweenStoreAndFlag = snd (StoreCommitment exampleCollaborators bitmapOnlyRound 1 [9])"

text \<open>
  A round whose group has 65537 validators, one more than a \<^verbatim>\<open>uint16\<close> index can tell
  apart. Validator \<open>n\<close> has the three-byte key made of the base-256 digits of \<open>n\<close>; all
  are in the bitmap, no commitment has arrived, and the message comes from the last one.
\<close>

definition validatorName :: "nat \<Rightarrow> string" where
  "validatorName n = [char_of (n div 65536), char_of (n div 256), char_of n]"

definition largeRound :: subround where
  "largeRound =
     \<lparr>Data = Some [1, 2, 3], RoundCanceled = False,
      consensusGroup = map validatorName [0..<65537], selfPubKey = validatorName 0,
      jobStatus = (\<lambda>node subroundId. subroundId = SrBitmap),
      threshold = (\<lambda>subroundId. 43692),
      status = (\<lambda>subroundId. SsNotFinished),
      commitmentStore = Map.empty, sent = []\<rparr>"

definition commitmentFromLast :: Message where
  "commitmentFromLast =
     NewConsensusMessage [1, 2, 3] [9] (validatorName 65536) [] MtCommitment 1000 4"

section \<open>Auxiliary facts\<close>

lemmas example_defs = exampleRound_def partialCoverageRound_def fullCoverageRound_def
  bitmapOnlyRound_def canceledAfterFinish_def exampleCollaborators_def commitmentFromV2_def
  commitmentFromV3_def exampleConsensusState_def exampleSubroundObject_def

lemmas accessor_defs = IsJobDone_def JobDone_def IsSelfJobDone_def Status_def Threshold_def
  SetStatus_def IsConsensusDataSet_def IsConsensusDataEqual_def ConsensusGroupIndex_def
  SelfConsensusGroupIndex_def CanProcessReceivedMessage_def NewConsensusMessage_def
  sliceBytes_def

subsection \<open>Job flags and group indices\<close>

lemma IsJobDone_iff:
  "IsJobDone cns node subroundId \<longleftrightarrow>
     node \<in> set (consensusGroup cns) \<and> jobStatus cns node subroundId"
  by (simp add: IsJobDone_def JobDone_def)

lemma IsJobDone_mono:
  assumes "consensusGroup sr' = consensusGroup sr"
    and "\<And>n s. jobStatus sr n s \<Longrightarrow> jobStatus sr' n s"
    and "IsJobDone sr node subroundId"
  shows "IsJobDone sr' node subroundId"
  using assms by (simp add: IsJobDone_iff)

lemma groupIndexFrom_Inr:
  "groupIndexFrom xs node k = Inr i \<Longrightarrow>
     k \<le> i \<and> nat (i - k) < length xs \<and> xs ! nat (i - k) = node"
proof (induction xs arbitrary: k)
  case Nil
  then show ?case by simp
next
  case (Cons x xs)
  show ?case
  proof (cases "x = node")
    case True
    with Cons.prems show ?thesis by simp
  next
    case False
    with Cons.prems have r: "groupIndexFrom xs node (k + 1) = Inr i" by simp
    from Cons.IH [OF r] have "k + 1 \<le> i" "nat (i - (k + 1)) < length xs"
      "xs ! nat (i - (k + 1)) = node" by simp_all
    moreover have "nat (i - k) = Suc (nat (i - (k + 1)))" using \<open>k + 1 \<le> i\<close> by simp
    ultimately show ?thesis by simp
  qed
qed

lemma groupIndexFrom_Inl:
  "(\<exists>err. groupIndexFrom xs node k = Inl err) \<longleftrightarrow> node \<notin> set xs"
  by (induction xs arbitrary: k) auto

lemma ConsensusGroupIndex_Inr:
  assumes "ConsensusGroupIndex sr node = Inr i"
  shows "0 \<le> i" "nat i < length (consensusGroup sr)" "consensusGroup sr ! nat i = node"
  using groupIndexFrom_Inr [of "consensusGroup sr" node 0 i] assms
  by (simp_all add: ConsensusGroupIndex_def)

lemma SelfConsensusGroupIndex_member:
  "SelfConsensusGroupIndex sr = Inr i \<Longrightarrow> selfPubKey sr \<in> set (consensusGroup sr)"
  using groupIndexFrom_Inl [of "consensusGroup sr" "selfPubKey sr" 0]
  by (auto simp: SelfConsensusGroupIndex_def ConsensusGroupIndex_def)

lemma unat_index16:
  assumes "0 \<le> i" "nat i < n" "n \<le> 65536"
  shows "unat (word_of_int i :: 16 word) = nat i"
proof -
  have "i < 65536" using assms by linarith
  then show ?thesis
    using assms(1) by (simp add: unat_eq_nat_uint uint_word_of_int take_bit_eq_mod)
qed

subsection \<open>The counting loop\<close>

lemma commitmentsCollectedLoop_eq:
  "commitmentsCollectedLoop sr xs n =
     (if list_all (\<lambda>node. IsJobDone sr node SrBitmap \<longrightarrow> IsJobDone sr node SrCommitment) xs
      then Some (n + int (length (filter (\<lambda>node. IsJobDone sr node SrBitmap
                                               \<and> IsJobDone sr node SrCommitment) xs)))
      else None)"
  by (induction xs arbitrary: n) (auto simp: IsJobDone_def JobDone_def)

lemma commitmentsCollected_eq:
  "commitmentsCollected sr t \<longleftrightarrow> bitmapCovered sr \<and> t \<le> bitmapCommitmentCount sr"
  by (simp add: commitmentsCollected_def commitmentsCollectedLoop_eq bitmapCovered_def
        bitmapCommitmentCount_def)

subsection \<open>What each operation leaves untouched\<close>

lemma doCommitmentJob_frame:
  "RoundCanceled (snd (doCommitmentJob env sr)) = RoundCanceled sr"
  "status (snd (doCommitmentJob env sr)) = status sr"
  "consensusGroup (snd (doCommitmentJob env sr)) = consensusGroup sr"
  "commitmentStore (snd (doCommitmentJob env sr)) = commitmentStore sr"
  by (simp_all add: doCommitmentJob_def SetSelfJobDone_def SetJobDone_def Let_def
        split: sum.split)

lemma doCommitmentJob_jobStatus_mono:
  "jobStatus sr node subroundId \<Longrightarrow> jobStatus (snd (doCommitmentJob env sr)) node subroundId"
  by (auto simp: doCommitmentJob_def SetSelfJobDone_def SetJobDone_def Let_def
        split: sum.split)

lemma receivedCommitment_frame:
  "RoundCanceled (snd (receivedCommitment env sr cnsDta)) = RoundCanceled sr"
  "status (snd (receivedCommitment env sr cnsDta)) = status sr"
  "consensusGroup (snd (receivedCommitment env sr cnsDta)) = consensusGroup sr"
  by (simp_all add: receivedCommitment_def StoreCommitment_def SetJobDone_def Let_def
        split: sum.split option.split)

lemma receivedCommitment_jobStatus_mono:
  "jobStatus sr node subroundId \<Longrightarrow>
     jobStatus (snd (receivedCommitment env sr cnsDta)) node subroundId"
  by (auto simp: receivedCommitment_def StoreCommitment_def SetJobDone_def Let_def
        split: sum.split option.split)

lemma doCommitmentConsensusCheck_frame:
  "RoundCanceled (snd (doCommitmentConsensusCheck sr)) = RoundCanceled sr"
  "consensusGroup (snd (doCommitmentConsensusCheck sr)) = consensusGroup sr"
  "jobStatus (snd (doCommitmentConsensusCheck sr)) = jobStatus sr"
  "commitmentStore (snd (doCommitmentConsensusCheck sr)) = commitmentStore sr"
  by (simp_all add: doCommitmentConsensusCheck_def SetStatus_def)

lemma doCommitmentConsensusCheck_keeps_Finished:
  "status sr SrCommitment = SsFinished \<Longrightarrow>
     status (snd (doCommitmentConsensusCheck sr)) SrCommitment = SsFinished"
  by (simp add: doCommitmentConsensusCheck_def SetStatus_def)

lemma doCommitmentConsensusCheck_canceled:
  "RoundCanceled sr \<Longrightarrow> doCommitmentConsensusCheck sr = (False, sr)"
  by (simp add: doCommitmentConsensusCheck_def)

lemma commitmentRun_Finished:
  "commitmentRun sr0 sr \<Longrightarrow> status sr0 SrCommitment = SsFinished \<Longrightarrow>
     status sr SrCommitment = SsFinished \<and> RoundCanceled sr = RoundCanceled sr0"
  by (induction rule: commitmentRun.induct)
     (simp_all add: doCommitmentJob_frame receivedCommitment_frame
        doCommitmentConsensusCheck_frame doCommitmentConsensusCheck_keeps_Finished)

lemma commitmentRun_canceled:
  "commitmentRun sr0 sr \<Longrightarrow> RoundCanceled sr0 \<Longrightarrow>
     RoundCanceled sr \<and> status sr = status sr0"
  by (induction rule: commitmentRun.induct)
     (simp_all add: doCommitmentJob_frame receivedCommitment_frame
        doCommitmentConsensusCheck_canceled)

subsection \<open>The outcomes of the two message operations\<close>

lemma receivedCommitment_cases:
  "receivedCommitment env sr cnsDta = (False, sr)
   \<or> (\<exists>index. IsConsensusDataSet sr \<and> IsConsensusDataEqual sr (BlockHeaderHash cnsDta)
        \<and> IsJobDone sr (PubKey cnsDta) SrBitmap
        \<and> CanProcessReceivedMessage sr cnsDta (rounderIndex env) SrCommitment
        \<and> ConsensusGroupIndex sr (PubKey cnsDta) = Inr index
        \<and> multiSignerStoreCheck env (word_of_int index) (SubRoundData cnsDta) = None
        \<and> receivedCommitment env sr cnsDta =
            (True, sr\<lparr>jobStatus := (jobStatus sr)(PubKey cnsDta :=
                                      (jobStatus sr (PubKey cnsDta))(SrCommitment := True)),
                      commitmentStore :=
                        (if commitmentStore sr (word_of_int index) = None
                         then (commitmentStore sr)(word_of_int index \<mapsto> SubRoundData cnsDta)
                         else commitmentStore sr)\<rparr>))"
  by (auto simp: receivedCommitment_def StoreCommitment_def SetJobDone_def Let_def
        CanProcessReceivedMessage_def
        split: sum.split option.split)

lemma receivedCommitment_duplicate:
  "jobStatus sr (PubKey cnsDta) SrCommitment \<Longrightarrow>
     receivedCommitment env sr cnsDta = (False, sr)"
  by (auto simp: receivedCommitment_def CanProcessReceivedMessage_def Let_def IsJobDone_iff)

lemma doCommitmentJob_cases:
  "((\<not> IsSelfJobDone sr SrBitmap \<or> \<not> CanDoSubroundJob env sr SrCommitment
       \<or> (\<exists>err. SelfConsensusGroupIndex sr = Inl err)
       \<or> (\<exists>i err. SelfConsensusGroupIndex sr = Inr i
                   \<and> multiSignerCommitment env (word_of_int i) = Inl err))
     \<and> doCommitmentJob env sr = (False, sr))
   \<or> (\<exists>i commitment.
         SelfConsensusGroupIndex sr = Inr i
         \<and> multiSignerCommitment env (word_of_int i) = Inr commitment
         \<and> \<not> sendConsensusMessage env (commitmentMessage env sr commitment)
         \<and> doCommitmentJob env sr =
              (False, sr\<lparr>sent := sent sr @ [commitmentMessage env sr commitment]\<rparr>))
   \<or> (\<exists>i commitment.
         SelfConsensusGroupIndex sr = Inr i
         \<and> multiSignerCommitment env (word_of_int i) = Inr commitment
         \<and> sendConsensusMessage env (commitmentMessage env sr commitment)
         \<and> doCommitmentJob env sr =
              (True, sr\<lparr>jobStatus := (jobStatus sr)(selfPubKey sr :=
                                        (jobStatus sr (selfPubKey sr))(SrCommitment := True)),
                        sent := sent sr @ [commitmentMessage env sr commitment]\<rparr>))"
proof (cases "SelfConsensusGroupIndex sr")
  case (Inl err)
  then show ?thesis by (simp add: doCommitmentJob_def)
next
  case (Inr i)
  note mem = SelfConsensusGroupIndex_member [OF Inr]
  show ?thesis
  proof (cases "multiSignerCommitment env (word_of_int i)")
    case (Inl err)
    with Inr show ?thesis by (simp add: doCommitmentJob_def)
  next
    case c: (Inr commitment)
    with Inr mem show ?thesis
      by (simp add: doCommitmentJob_def commitmentMessage_def SetSelfJobDone_def
            SetJobDone_def Let_def)
  qed
qed

subsection \<open>Preservation of the CommitmentStore invariant\<close>

lemma storeInvariant_mono:
  assumes inv: "commitmentStoreInvariant sr"
    and grp: "consensusGroup sr' = consensusGroup sr"
    and js: "\<And>n s. jobStatus sr n s \<Longrightarrow> jobStatus sr' n s"
    and st: "commitmentStore sr' = commitmentStore sr"
  shows "commitmentStoreInvariant sr'"
  unfolding commitmentStoreInvariant_def
proof (intro allI impI)
  fix index assume "commitmentStore sr' index \<noteq> None"
  with st inv have a: "unat index < length (consensusGroup sr)"
    and b: "IsJobDone sr (consensusGroup sr ! unat index) SrCommitment"
    by (simp_all add: commitmentStoreInvariant_def)
  from IsJobDone_mono [OF grp js b] a grp
  show "unat index < length (consensusGroup sr')
        \<and> IsJobDone sr' (consensusGroup sr' ! unat index) SrCommitment" by simp
qed

lemma doCommitmentJob_storeInvariant:
  "commitmentStoreInvariant sr \<Longrightarrow> commitmentStoreInvariant (snd (doCommitmentJob env sr))"
  by (rule storeInvariant_mono)
     (simp_all add: doCommitmentJob_frame doCommitmentJob_jobStatus_mono)

lemma doCommitmentConsensusCheck_storeInvariant:
  "commitmentStoreInvariant sr \<Longrightarrow>
     commitmentStoreInvariant (snd (doCommitmentConsensusCheck sr))"
  by (rule storeInvariant_mono) (simp_all add: doCommitmentConsensusCheck_frame)

lemma receivedCommitment_storeInvariant:
  assumes inv: "commitmentStoreInvariant sr" and len: "length (consensusGroup sr) \<le> 65536"
  shows "commitmentStoreInvariant (snd (receivedCommitment env sr cnsDta))"
proof -
  let ?sr' = "snd (receivedCommitment env sr cnsDta)"
  let ?node = "PubKey cnsDta"
  from receivedCommitment_cases [of env sr cnsDta]
  consider (rejected) "receivedCommitment env sr cnsDta = (False, sr)"
    | (accepted) index where "ConsensusGroupIndex sr ?node = Inr index"
        "?sr' = sr\<lparr>jobStatus := (jobStatus sr)(?node := (jobStatus sr ?node)(SrCommitment := True)),
                   commitmentStore :=
                     (if commitmentStore sr (word_of_int index) = None
                      then (commitmentStore sr)(word_of_int index \<mapsto> SubRoundData cnsDta)
                      else commitmentStore sr)\<rparr>"
    by fastforce
  then show ?thesis
  proof cases
    case rejected
    with inv show ?thesis by simp
  next
    case accepted
    note ix = ConsensusGroupIndex_Inr [OF accepted(1)]
    have u: "unat (word_of_int index :: 16 word) = nat index"
      by (rule unat_index16 [OF ix(1) ix(2) len])
    have grp: "consensusGroup ?sr' = consensusGroup sr" by (simp add: receivedCommitment_frame)
    have mono: "\<And>n s. jobStatus sr n s \<Longrightarrow> jobStatus ?sr' n s"
      by (rule receivedCommitment_jobStatus_mono)
    have "?node \<in> set (consensusGroup sr)"
      using ix(2,3) nth_mem by fastforce
    then have nodeDone: "IsJobDone ?sr' ?node SrCommitment"
      by (simp add: accepted(2) IsJobDone_iff)
    show ?thesis
      unfolding commitmentStoreInvariant_def
    proof (intro allI impI)
      fix k assume k: "commitmentStore ?sr' k \<noteq> None"
      show "unat k < length (consensusGroup ?sr')
            \<and> IsJobDone ?sr' (consensusGroup ?sr' ! unat k) SrCommitment"
      proof (cases "k = word_of_int index")
        case True
        with u ix nodeDone grp show ?thesis by simp
      next
        case False
        with k have "commitmentStore sr k \<noteq> None" by (simp add: accepted(2) split: if_splits)
        with inv have a: "unat k < length (consensusGroup sr)"
          and b: "IsJobDone sr (consensusGroup sr ! unat k) SrCommitment"
          by (simp_all add: commitmentStoreInvariant_def)
        from IsJobDone_mono [OF grp mono b] a grp show ?thesis by simp
      qed
    qed
  qed
qed

subsection \<open>The example rounds, evaluated\<close>

lemma example_received:
  "receivedCommitment exampleCollaborators bitmapOnlyRound commitmentFromV2 =
     (True, bitmapOnlyRound\<lparr>jobStatus := (jobStatus bitmapOnlyRound)(''v2'' :=
                               (jobStatus bitmapOnlyRound ''v2'')(SrCommitment := True)),
                            commitmentStore := [1 \<mapsto> [9]]\<rparr>)"
  by (simp add: receivedCommitment_def example_defs accessor_defs StoreCommitment_def
        SetJobDone_def Let_def)

lemma example_check_full:
  "doCommitmentConsensusCheck fullCoverageRound =
     (True, fullCoverageRound\<lparr>status := (status fullCoverageRound)(SrCommitment := SsFinished)\<rparr>)"
  by (simp add: doCommitmentConsensusCheck_def commitmentsCollected_def example_defs
        accessor_defs)

lemma betweenStoreAndFlag_eq:
  "betweenStoreAndFlag = bitmapOnlyRound\<lparr>commitmentStore := [1 \<mapsto> [9]]\<rparr>"
  by (simp add: betweenStoreAndFlag_def StoreCommitment_def example_defs)

subsection \<open>The round with 65537 validators\<close>

lemma validatorName_inj:
  assumes "n < 16777216" "m < 16777216" "validatorName n = validatorName m"
  shows "n = m"
proof -
  from assms(3) have c: "char_of (n div 65536) = (char_of (m div 65536) :: char)"
    "char_of (n div 256) = (char_of (m div 256) :: char)"
    "char_of n = (char_of m :: char)"
    by (simp_all add: validatorName_def)
  have "of_char (char_of (n div 65536) :: char) = (of_char (char_of (m div 65536) :: char) :: nat)"
    "of_char (char_of (n div 256) :: char) = (of_char (char_of (m div 256) :: char) :: nat)"
    "of_char (char_of n :: char) = (of_char (char_of m :: char) :: nat)"
    using c by simp_all
  then have "n div 65536 mod 256 = m div 65536 mod 256"
    "n div 256 mod 256 = m div 256 mod 256" "n mod 256 = m mod 256"
    by (simp_all only: of_char_of)
  then have e: "n div 256 div 256 mod 256 = m div 256 div 256 mod 256"
    "n div 256 mod 256 = m div 256 mod 256" "n mod 256 = m mod 256"
    by (simp_all add: div_mult2_eq [symmetric])
  have "n div 256 div 256 < 256" "m div 256 div 256 < 256"
    using assms(1,2) by (simp_all add: div_mult2_eq [symmetric] less_mult_imp_div_less)
  with e(1) have hi: "n div 256 div 256 = m div 256 div 256" by simp
  have "n div 256 = n div 256 div 256 * 256 + n div 256 mod 256"
    "m div 256 = m div 256 div 256 * 256 + m div 256 mod 256" by simp_all
  with hi e(2) have mid: "n div 256 = m div 256" by metis
  have "n = n div 256 * 256 + n mod 256" "m = m div 256 * 256 + m mod 256" by simp_all
  with mid e(3) show ?thesis by metis
qed

lemma groupIndexFrom_map_upt:
  assumes "\<And>j. k \<le> j \<Longrightarrow> j < m \<Longrightarrow> f j \<noteq> f m" and "k \<le> m" and "m < n"
  shows "groupIndexFrom (map f [k..<n]) (f m) i = Inr (i + int (m - k))"
  using assms
proof (induction "m - k" arbitrary: k i)
  case 0
  then have "k = m" by simp
  have "[m..<n] = m # [Suc m..<n]" using \<open>m < n\<close> by (rule upt_conv_Cons)
  with \<open>k = m\<close> show ?case by simp
next
  case (Suc d)
  then have lt: "k < m" "k < n" by simp_all
  have ne: "f k \<noteq> f m" using Suc.prems(1) [of k] lt by simp
  have d: "d = m - Suc k" using Suc.hyps(2) by simp
  have "groupIndexFrom (map f [Suc k..<n]) (f m) (i + 1) = Inr (i + 1 + int (m - Suc k))"
    using Suc.hyps(1) [OF d, of "i + 1"] Suc.prems lt by simp
  moreover have "[k..<n] = k # [Suc k..<n]" using lt(2) by (rule upt_conv_Cons)
  moreover have "int (m - k) = 1 + int (m - Suc k)" using lt(1) by simp
  ultimately show ?case using ne by simp
qed

lemma largeRound_fields:
  "Data largeRound = Some [1, 2, 3]"
  "jobStatus largeRound = (\<lambda>node subroundId. subroundId = SrBitmap)"
  "commitmentStore largeRound = Map.empty"
  "length (consensusGroup largeRound) = 65537"
  "consensusGroup largeRound ! 0 = validatorName 0"
  "validatorName 65536 \<in> set (consensusGroup largeRound)"
  "validatorName 0 \<in> set (consensusGroup largeRound)"
  by (simp_all add: largeRound_def)

lemma largeRound_distinct: "distinct (consensusGroup largeRound)"
proof -
  have "inj_on validatorName (set [0..<65537])"
    by (rule inj_onI) (auto intro: validatorName_inj)
  then show ?thesis by (simp add: largeRound_def distinct_map)
qed

lemma largeRound_index:
  "ConsensusGroupIndex largeRound (validatorName 65536) = Inr 65536"
proof -
  have "groupIndexFrom (map validatorName [0..<65537]) (validatorName 65536) 0
          = Inr (0 + int (65536 - 0))"
  proof (rule groupIndexFrom_map_upt)
    fix j :: nat assume "j < 65536"
    then show "validatorName j \<noteq> validatorName 65536"
      using validatorName_inj [of j 65536] by auto
  qed simp_all
  then show ?thesis by (simp add: ConsensusGroupIndex_def largeRound_def)
qed

lemma largeRound_received:
  "receivedCommitment exampleCollaborators largeRound commitmentFromLast =
     (True, largeRound\<lparr>jobStatus := (jobStatus largeRound)(validatorName 65536 :=
                               (jobStatus largeRound (validatorName 65536))(SrCommitment := True)),
                       commitmentStore := [0 \<mapsto> [9]]\<rparr>)"
proof -
  have msg: "PubKey commitmentFromLast = validatorName 65536"
    "BlockHeaderHash commitmentFromLast = [1, 2, 3]" "SubRoundData commitmentFromLast = [9]"
    "RoundIndex commitmentFromLast = 4"
    by (simp_all add: commitmentFromLast_def NewConsensusMessage_def)
  have env: "rounderIndex exampleCollaborators = 4"
    "multiSignerStoreCheck exampleCollaborators 0 [9] = None"
    by (simp_all add: exampleCollaborators_def)
  have wrap: "(word_of_int 65536 :: 16 word) = 0" "(65536 :: 16 word) = 0" by simp_all
  show ?thesis
    by (simp add: receivedCommitment_def Let_def msg env wrap largeRound_fields largeRound_index
          IsConsensusDataSet_def IsConsensusDataEqual_def IsJobDone_iff
          CanProcessReceivedMessage_def StoreCommitment_def SetJobDone_def)
qed

section \<open>Completion of the commitment subround\<close>

text \<open>
  C1, as the specification states it: for a fresh subround (not Finished, round not
  canceled) the check returns true if and only if the number of group members with both
  the Bitmap and the Commitment job done reaches the Commitment threshold. The code asks
  for more. In \<^const>\<open>partialCoverageRound\<close> two members have both jobs done and the
  threshold is 2, yet the check returns false, because v3 is in the bitmap and has not
  delivered.
\<close>

theorem check_threshold_alone_counterexample:
  "\<not> RoundCanceled partialCoverageRound
   \<and> Status partialCoverageRound SrCommitment \<noteq> SsFinished
   \<and> Threshold partialCoverageRound SrCommitment \<le> bitmapCommitmentCount partialCoverageRound
   \<and> \<not> fst (doCommitmentConsensusCheck partialCoverageRound)"
  by (simp add: example_defs accessor_defs bitmapCommitmentCount_def
        doCommitmentConsensusCheck_def commitmentsCollected_def)

text \<open>
  C1, amended: for a fresh subround (not Finished, round not canceled)
  \<^verbatim>\<open>doCommitmentConsensusCheck\<close> returns true, and exactly then marks the subround Finished,
  if and only if every group member whose Bitmap job is done also has its Commitment job
  done and the number of these members is at least \<^verbatim>\<open>Threshold(SrCommitment)\<close>; otherwise it
  returns false and leaves the state as it is.
\<close>

theorem check_fresh_covered_and_threshold:
  assumes "\<not> RoundCanceled sr" and "Status sr SrCommitment \<noteq> SsFinished"
  shows "(fst (doCommitmentConsensusCheck sr) \<longleftrightarrow>
            bitmapCovered sr \<and> Threshold sr SrCommitment \<le> bitmapCommitmentCount sr)
         \<and> snd (doCommitmentConsensusCheck sr) =
             (if fst (doCommitmentConsensusCheck sr) then SetStatus sr SrCommitment SsFinished
              else sr)"
  using assms by (simp add: doCommitmentConsensusCheck_def commitmentsCollected_eq)

theorem check_fresh_covered_and_threshold_witness:
  "fst (doCommitmentConsensusCheck fullCoverageRound)
   \<and> Status (snd (doCommitmentConsensusCheck fullCoverageRound)) SrCommitment = SsFinished
   \<and> bitmapCommitmentCount fullCoverageRound = 2
   \<and> \<not> bitmapCovered partialCoverageRound
   \<and> doCommitmentConsensusCheck partialCoverageRound = (False, partialCoverageRound)"
proof -
  have fresh: "\<not> RoundCanceled fullCoverageRound" "Status fullCoverageRound SrCommitment \<noteq> SsFinished"
    "\<not> RoundCanceled partialCoverageRound" "Status partialCoverageRound SrCommitment \<noteq> SsFinished"
    by (simp_all add: example_defs accessor_defs)
  have full: "bitmapCovered fullCoverageRound" "bitmapCommitmentCount fullCoverageRound = 2"
    "Threshold fullCoverageRound SrCommitment = 2"
    by (simp_all add: example_defs accessor_defs bitmapCovered_def bitmapCommitmentCount_def)
  have part: "\<not> bitmapCovered partialCoverageRound"
    by (simp add: example_defs accessor_defs bitmapCovered_def)
  from check_fresh_covered_and_threshold [OF fresh(1,2)] full
  have a: "fst (doCommitmentConsensusCheck fullCoverageRound)"
    and b: "snd (doCommitmentConsensusCheck fullCoverageRound)
            = SetStatus fullCoverageRound SrCommitment SsFinished" by simp_all
  from check_fresh_covered_and_threshold [OF fresh(3,4)] part
  have c: "\<not> fst (doCommitmentConsensusCheck partialCoverageRound)"
    and d: "snd (doCommitmentConsensusCheck partialCoverageRound) = partialCoverageRound"
    by simp_all
  from c d have "doCommitmentConsensusCheck partialCoverageRound = (False, partialCoverageRound)"
    by (simp add: prod_eq_iff)
  with a b full part show ?thesis by (simp add: Status_def SetStatus_def)
qed

section \<open>Receiving a commitment\<close>

text \<open>
  C2: \<^verbatim>\<open>receivedCommitment\<close> stores the commitment at the sender's consensus-group index
  and sets the sender's Commitment flag only if the round's data is set, the message's
  block-header hash equals it, the sender's Bitmap flag is true and the processable check
  passes. If any of the four fails it returns false and the state is unchanged; whenever
  the state changed all four held; and when it returns true the store holds an entry at
  the sender's index (the message's commitment, if the index was free) and the sender's
  Commitment flag is set.
\<close>

theorem receivedCommitment_gate:
  "(\<not> (IsConsensusDataSet sr \<and> IsConsensusDataEqual sr (BlockHeaderHash cnsDta)
        \<and> IsJobDone sr (PubKey cnsDta) SrBitmap
        \<and> CanProcessReceivedMessage sr cnsDta (rounderIndex env) SrCommitment)
      \<longrightarrow> receivedCommitment env sr cnsDta = (False, sr))
   \<and> (snd (receivedCommitment env sr cnsDta) \<noteq> sr
      \<longrightarrow> IsConsensusDataSet sr \<and> IsConsensusDataEqual sr (BlockHeaderHash cnsDta)
          \<and> IsJobDone sr (PubKey cnsDta) SrBitmap
          \<and> CanProcessReceivedMessage sr cnsDta (rounderIndex env) SrCommitment)
   \<and> (fst (receivedCommitment env sr cnsDta)
      \<longrightarrow> (\<exists>index. ConsensusGroupIndex sr (PubKey cnsDta) = Inr index
             \<and> commitmentStore (snd (receivedCommitment env sr cnsDta)) (word_of_int index)
                 \<noteq> None
             \<and> (commitmentStore sr (word_of_int index) = None \<longrightarrow>
                  commitmentStore (snd (receivedCommitment env sr cnsDta)) (word_of_int index)
                    = Some (SubRoundData cnsDta)))
          \<and> IsJobDone (snd (receivedCommitment env sr cnsDta)) (PubKey cnsDta) SrCommitment)"
  (is "(\<not> ?gate \<longrightarrow> ?rejected) \<and> (?changed \<longrightarrow> ?gate) \<and> (?accepted \<longrightarrow> ?stored \<and> ?marked)")
proof -
  note outcomes = receivedCommitment_cases [of env sr cnsDta]
  have a: "\<not> ?gate \<longrightarrow> ?rejected" using outcomes by blast
  have b: "?changed \<longrightarrow> ?gate"
  proof
    assume ?changed
    then have "\<not> ?rejected" by auto
    with a show ?gate by blast
  qed
  have c: "?accepted \<longrightarrow> ?stored \<and> ?marked"
  proof
    assume ?accepted
    then have "\<not> ?rejected" by auto
    with outcomes
    obtain index where ix: "ConsensusGroupIndex sr (PubKey cnsDta) = Inr index"
      and grp: "CanProcessReceivedMessage sr cnsDta (rounderIndex env) SrCommitment"
      and res: "receivedCommitment env sr cnsDta =
            (True, sr\<lparr>jobStatus := (jobStatus sr)(PubKey cnsDta :=
                                      (jobStatus sr (PubKey cnsDta))(SrCommitment := True)),
                      commitmentStore :=
                        (if commitmentStore sr (word_of_int index) = None
                         then (commitmentStore sr)(word_of_int index \<mapsto> SubRoundData cnsDta)
                         else commitmentStore sr)\<rparr>)"
      by blast
    from grp have mem: "PubKey cnsDta \<in> set (consensusGroup sr)"
      by (simp add: CanProcessReceivedMessage_def)
    have ?stored using ix by (auto simp: res)
    moreover have ?marked using mem by (simp add: res IsJobDone_iff)
    ultimately show "?stored \<and> ?marked" by simp
  qed
  from a b c show ?thesis by blast
qed

theorem receivedCommitment_gate_witness:
  "receivedCommitment exampleCollaborators fullCoverageRound commitmentFromV3
     = (False, fullCoverageRound)
   \<and> fst (receivedCommitment exampleCollaborators bitmapOnlyRound commitmentFromV2)
   \<and> commitmentStore (snd (receivedCommitment exampleCollaborators bitmapOnlyRound
                              commitmentFromV2)) 1 = Some [9]
   \<and> IsJobDone (snd (receivedCommitment exampleCollaborators bitmapOnlyRound commitmentFromV2))
        ''v2'' SrCommitment"
proof -
  have unset: "\<not> IsJobDone fullCoverageRound (PubKey commitmentFromV3) SrBitmap"
    by (simp add: example_defs accessor_defs)
  have rej: "receivedCommitment exampleCollaborators fullCoverageRound commitmentFromV3
               = (False, fullCoverageRound)"
    using receivedCommitment_gate [of fullCoverageRound commitmentFromV3 exampleCollaborators]
      unset by blast
  have acc: "fst (receivedCommitment exampleCollaborators bitmapOnlyRound commitmentFromV2)"
    by (simp add: example_received)
  have ix: "ConsensusGroupIndex bitmapOnlyRound (PubKey commitmentFromV2) = Inr 1"
    "commitmentStore bitmapOnlyRound (word_of_int 1) = None"
    "PubKey commitmentFromV2 = ''v2''" "SubRoundData commitmentFromV2 = [9]"
    by (simp_all add: example_defs accessor_defs)
  note gate = receivedCommitment_gate [of bitmapOnlyRound commitmentFromV2 exampleCollaborators]
  note accepted = gate [THEN conjunct2, THEN conjunct2, THEN mp, OF acc]
  from accepted [THEN conjunct2]
  have flag: "IsJobDone (snd (receivedCommitment exampleCollaborators bitmapOnlyRound
                                commitmentFromV2)) (PubKey commitmentFromV2) SrCommitment" .
  from accepted [THEN conjunct1]
  obtain index where
    i: "ConsensusGroupIndex bitmapOnlyRound (PubKey commitmentFromV2) = Inr index"
    and st: "commitmentStore bitmapOnlyRound (word_of_int index) = None \<longrightarrow>
             commitmentStore (snd (receivedCommitment exampleCollaborators bitmapOnlyRound
                                     commitmentFromV2)) (word_of_int index)
               = Some (SubRoundData commitmentFromV2)"
    by (elim exE conjE)
  from i ix(1) have "index = 1" by simp
  with st ix(2,4)
  have stored: "commitmentStore (snd (receivedCommitment exampleCollaborators bitmapOnlyRound
                                        commitmentFromV2)) 1 = Some [9]"
    by simp
  from flag ix(3)
  have marked: "IsJobDone (snd (receivedCommitment exampleCollaborators bitmapOnlyRound
                                  commitmentFromV2)) ''v2'' SrCommitment"
    by simp
  from rej acc stored marked show ?thesis by simp
qed

section \<open>Doing the commitment job\<close>

text \<open>
  C3: \<^verbatim>\<open>doCommitmentJob\<close> returns false with no state change when its preconditions
  fail (self not marked done for Bitmap, \<^verbatim>\<open>CanDoSubroundJob(SrCommitment)\<close> false, or the
  commitment cannot be obtained because self has no group index or the multi-signer
  fails). When it returns true it has handed exactly one message to the send callback,
  carrying the round's data, the rounder's time stamp and round index, the callback has
  answered true and self is marked done for Commitment. The job table changes only in a
  run in which the callback answered true on that message. And it does succeed: with the
  preconditions met and the callback answering true on the message, it returns true.
\<close>

theorem doCommitmentJob_contract:
  "((\<not> IsSelfJobDone sr SrBitmap \<or> \<not> CanDoSubroundJob env sr SrCommitment
       \<or> (\<exists>err. SelfConsensusGroupIndex sr = Inl err)
       \<or> (\<exists>i err. SelfConsensusGroupIndex sr = Inr i
                   \<and> multiSignerCommitment env (word_of_int i) = Inl err))
      \<longrightarrow> doCommitmentJob env sr = (False, sr))
   \<and> (fst (doCommitmentJob env sr) \<longrightarrow>
        (\<exists>msg. sent (snd (doCommitmentJob env sr)) = sent sr @ [msg]
           \<and> BlockHeaderHash msg = sliceBytes (Data sr)
           \<and> TimeStamp msg = word_of_int (rounderTimeStamp env)
           \<and> RoundIndex msg = rounderIndex env
           \<and> sendConsensusMessage env msg)
        \<and> IsSelfJobDone (snd (doCommitmentJob env sr)) SrCommitment)
   \<and> (jobStatus (snd (doCommitmentJob env sr)) \<noteq> jobStatus sr \<longrightarrow>
        (\<exists>msg. sent (snd (doCommitmentJob env sr)) = sent sr @ [msg]
           \<and> sendConsensusMessage env msg))
   \<and> (\<forall>i commitment.
          IsSelfJobDone sr SrBitmap \<and> CanDoSubroundJob env sr SrCommitment
          \<and> SelfConsensusGroupIndex sr = Inr i
          \<and> multiSignerCommitment env (word_of_int i) = Inr commitment
          \<and> sendConsensusMessage env (commitmentMessage env sr commitment)
        \<longrightarrow> fst (doCommitmentJob env sr))"
  (is "(?pre \<longrightarrow> ?unchanged) \<and> (?ok \<longrightarrow> ?sentOne \<and> ?marked) \<and> (?jobChanged \<longrightarrow> ?sendOk)
       \<and> ?succeeds")
proof -
  note outcomes = doCommitmentJob_cases [of sr env]
  have a: "?pre \<longrightarrow> ?unchanged"
  proof
    assume ?pre
    then show ?unchanged by (auto simp: doCommitmentJob_def)
  qed
  have b: "?ok \<longrightarrow> ?sentOne \<and> ?marked"
  proof
    assume ?ok
    with outcomes obtain i commitment where
      ix: "SelfConsensusGroupIndex sr = Inr i"
      and answered: "sendConsensusMessage env (commitmentMessage env sr commitment)"
      and res: "doCommitmentJob env sr =
              (True, sr\<lparr>jobStatus := (jobStatus sr)(selfPubKey sr :=
                                        (jobStatus sr (selfPubKey sr))(SrCommitment := True)),
                        sent := sent sr @ [commitmentMessage env sr commitment]\<rparr>)"
      by auto
    have ?sentOne
      using answered
      by (intro exI [of _ "commitmentMessage env sr commitment"])
         (simp add: res commitmentMessage_def NewConsensusMessage_def)
    moreover have ?marked
      using SelfConsensusGroupIndex_member [OF ix]
      by (simp add: res IsSelfJobDone_def IsJobDone_iff)
    ultimately show "?sentOne \<and> ?marked" by simp
  qed
  have c: "?jobChanged \<longrightarrow> ?sendOk"
  proof
    assume ?jobChanged
    with outcomes obtain commitment where
      answered: "sendConsensusMessage env (commitmentMessage env sr commitment)"
      and res: "doCommitmentJob env sr =
              (True, sr\<lparr>jobStatus := (jobStatus sr)(selfPubKey sr :=
                                        (jobStatus sr (selfPubKey sr))(SrCommitment := True)),
                        sent := sent sr @ [commitmentMessage env sr commitment]\<rparr>)"
      by auto
    show ?sendOk
      using answered
      by (intro exI [of _ "commitmentMessage env sr commitment"]) (simp add: res)
  qed
  have d: ?succeeds
    by (auto simp: doCommitmentJob_def commitmentMessage_def SetSelfJobDone_def
          SetJobDone_def Let_def dest: SelfConsensusGroupIndex_member)
  from a b c d show ?thesis by blast
qed

theorem doCommitmentJob_contract_witness:
  "doCommitmentJob exampleCollaborators fullCoverageRound = (False, fullCoverageRound)
   \<and> fst (doCommitmentJob exampleCollaborators bitmapOnlyRound)
   \<and> IsSelfJobDone (snd (doCommitmentJob exampleCollaborators bitmapOnlyRound)) SrCommitment
   \<and> length (sent (snd (doCommitmentJob exampleCollaborators bitmapOnlyRound))) = 1"
proof -
  have cannot: "\<not> CanDoSubroundJob exampleCollaborators fullCoverageRound SrCommitment"
    by (simp add: example_defs accessor_defs)
  note full = doCommitmentJob_contract [of fullCoverageRound exampleCollaborators]
  from full [THEN conjunct1] cannot
  have rej: "doCommitmentJob exampleCollaborators fullCoverageRound = (False, fullCoverageRound)"
    by blast
  note fresh = doCommitmentJob_contract [of bitmapOnlyRound exampleCollaborators]
  have met: "IsSelfJobDone bitmapOnlyRound SrBitmap"
    "CanDoSubroundJob exampleCollaborators bitmapOnlyRound SrCommitment"
    "SelfConsensusGroupIndex bitmapOnlyRound = Inr 0"
    "multiSignerCommitment exampleCollaborators (word_of_int 0) = Inr [7]"
    "sendConsensusMessage exampleCollaborators
       (commitmentMessage exampleCollaborators bitmapOnlyRound [7])"
    by (simp_all add: example_defs accessor_defs)
  from fresh [THEN conjunct2, THEN conjunct2, THEN conjunct2, THEN spec, THEN spec, THEN mp,
              of 0 "[7]"] met
  have ok: "fst (doCommitmentJob exampleCollaborators bitmapOnlyRound)" by blast
  have empty: "sent bitmapOnlyRound = []" by (simp add: example_defs)
  note done1 = fresh [THEN conjunct2, THEN conjunct1, THEN mp, OF ok]
  from done1 [THEN conjunct1] empty
  have one: "length (sent (snd (doCommitmentJob exampleCollaborators bitmapOnlyRound))) = 1"
    by (elim exE conjE) simp
  from rej ok done1 [THEN conjunct2] one show ?thesis by simp
qed

section \<open>The CommitmentStore invariant\<close>

text \<open>
  C4, as the specification states it: at every point in a round, an entry exists in the
  CommitmentStore for a consensus-group index only if the validator at that index has its
  Commitment job done. Two states of the code break this. Inside \<^verbatim>\<open>receivedCommitment\<close>
  the store is written before the flag is set: \<^const>\<open>betweenStoreAndFlag\<close> is the state
  between the two calls when \<^const>\<open>commitmentFromV2\<close> arrives in
  \<^const>\<open>bitmapOnlyRound\<close>, and it holds an entry for v2 whose flag is still false. And
  the index is cut to a \<^verbatim>\<open>uint16\<close>: in \<^const>\<open>largeRound\<close>, a duplicate-free group of
  65537 validators, the commitment of the validator at index 65536 lands in slot 0, whose
  validator has delivered nothing.
\<close>

theorem commitmentStore_every_point_counterexample:
  "commitmentStoreInvariant bitmapOnlyRound
   \<and> receivedCommitment exampleCollaborators bitmapOnlyRound commitmentFromV2
       = (True, snd (SetJobDone betweenStoreAndFlag ''v2'' SrCommitment True))
   \<and> \<not> commitmentStoreInvariant betweenStoreAndFlag
   \<and> commitmentStoreInvariant largeRound
   \<and> distinct (consensusGroup largeRound)
   \<and> \<not> commitmentStoreInvariant
         (snd (receivedCommitment exampleCollaborators largeRound commitmentFromLast))"
proof -
  have a: "commitmentStoreInvariant bitmapOnlyRound"
    by (simp add: commitmentStoreInvariant_def example_defs)
  have b: "receivedCommitment exampleCollaborators bitmapOnlyRound commitmentFromV2
       = (True, snd (SetJobDone betweenStoreAndFlag ''v2'' SrCommitment True))"
    by (simp add: example_received betweenStoreAndFlag_eq SetJobDone_def)
       (simp add: example_defs)
  have c: "\<not> commitmentStoreInvariant betweenStoreAndFlag"
  proof
    assume inv: "commitmentStoreInvariant betweenStoreAndFlag"
    from inv [unfolded commitmentStoreInvariant_def, THEN spec, of 1]
    have "commitmentStore betweenStoreAndFlag 1 \<noteq> None \<longrightarrow>
        IsJobDone betweenStoreAndFlag (consensusGroup betweenStoreAndFlag ! unat (1 :: 16 word))
          SrCommitment"
      by blast
    then show False
      by (simp add: betweenStoreAndFlag_eq IsJobDone_iff example_defs)
  qed
  have d: "commitmentStoreInvariant largeRound"
    by (simp add: commitmentStoreInvariant_def largeRound_fields)
  have e: "\<not> commitmentStoreInvariant
         (snd (receivedCommitment exampleCollaborators largeRound commitmentFromLast))"
  proof
    assume inv: "commitmentStoreInvariant
         (snd (receivedCommitment exampleCollaborators largeRound commitmentFromLast))"
    from inv [unfolded commitmentStoreInvariant_def, THEN spec, of 0]
    have "IsJobDone (snd (receivedCommitment exampleCollaborators largeRound commitmentFromLast))
                 (consensusGroup largeRound ! unat (0 :: 16 word)) SrCommitment"
      by (simp add: largeRound_received)
    moreover have "validatorName 0 \<noteq> validatorName 65536"
      using validatorName_inj [of 0 65536] by auto
    ultimately show False
      by (simp add: largeRound_received IsJobDone_iff largeRound_fields)
  qed
  from a b c d e largeRound_distinct show ?thesis by simp
qed

text \<open>
  C4, amended: in a round whose consensus group has at most 65536 members, before and
  after every call of an operation of the commitment subround (\<^verbatim>\<open>doCommitmentJob\<close>,
  \<^verbatim>\<open>receivedCommitment\<close>, \<^verbatim>\<open>doCommitmentConsensusCheck\<close>, in any order, starting from a state
  in which it holds, such as the cleared stores of the round start) an entry exists in the
  CommitmentStore for a consensus-group index only if the validator at that index has its
  Commitment job done; every such operation preserves this from its entry to its return.
\<close>

theorem commitmentStore_invariant:
  assumes "commitmentRun sr0 sr" and "commitmentStoreInvariant sr0"
    and "length (consensusGroup sr0) \<le> 65536"
  shows "commitmentStoreInvariant sr"
proof -
  from assms have "commitmentStoreInvariant sr \<and> length (consensusGroup sr) \<le> 65536"
  proof (induction rule: commitmentRun.induct)
    case run_start
    then show ?case by simp
  next
    case (run_job sr env)
    then show ?case by (simp add: doCommitmentJob_storeInvariant doCommitmentJob_frame)
  next
    case (run_received sr env cnsDta)
    then show ?case by (simp add: receivedCommitment_storeInvariant receivedCommitment_frame)
  next
    case (run_check sr)
    then show ?case
      by (simp add: doCommitmentConsensusCheck_storeInvariant doCommitmentConsensusCheck_frame)
  qed
  then show ?thesis by simp
qed

theorem commitmentStore_invariant_witness:
  "commitmentStore (snd (receivedCommitment exampleCollaborators bitmapOnlyRound
                           commitmentFromV2)) 1 = Some [9]
   \<and> commitmentStoreInvariant
        (snd (doCommitmentConsensusCheck
                (snd (receivedCommitment exampleCollaborators bitmapOnlyRound
                        commitmentFromV2))))"
proof -
  have start: "commitmentStoreInvariant bitmapOnlyRound"
    by (simp add: commitmentStoreInvariant_def example_defs)
  have size: "length (consensusGroup bitmapOnlyRound) \<le> 65536"
    by (simp add: example_defs)
  have run: "commitmentRun bitmapOnlyRound
        (snd (doCommitmentConsensusCheck
                (snd (receivedCommitment exampleCollaborators bitmapOnlyRound
                        commitmentFromV2))))"
    by (intro run_check run_received run_start)
  from commitmentStore_invariant [OF run start size] show ?thesis
    by (simp add: example_received)
qed

section \<open>Finished and canceled rounds\<close>

text \<open>
  C5, as the specification states it: once the Commitment subround is Finished, every
  later call of its check returns true. The check tests \<^verbatim>\<open>RoundCanceled\<close> before the
  status: in \<^const>\<open>canceledAfterFinish\<close> the subround is Finished, the round has been
  canceled afterwards, and the check returns false.
\<close>

theorem finished_check_counterexample:
  "Status canceledAfterFinish SrCommitment = SsFinished
   \<and> \<not> fst (doCommitmentConsensusCheck canceledAfterFinish)"
proof -
  have eq: "canceledAfterFinish =
          fullCoverageRound\<lparr>status := (status fullCoverageRound)(SrCommitment := SsFinished),
                            RoundCanceled := True\<rparr>"
    by (simp add: canceledAfterFinish_def example_check_full)
  show ?thesis by (simp add: eq Status_def doCommitmentConsensusCheck_def)
qed

text \<open>
  C5, amended: once the Commitment subround's status is Finished, no operation of the
  commitment subround moves it out of Finished within the round, and every later call of
  the check returns true as long as the round is not canceled (on a canceled round it
  returns false).
\<close>

theorem finished_stays_finished:
  assumes "Status sr0 SrCommitment = SsFinished" and "commitmentRun sr0 sr"
  shows "Status sr SrCommitment = SsFinished
         \<and> fst (doCommitmentConsensusCheck sr) = (\<not> RoundCanceled sr)"
proof -
  from assms have "status sr SrCommitment = SsFinished"
    using commitmentRun_Finished by (simp add: Status_def)
  then show ?thesis by (simp add: doCommitmentConsensusCheck_def Status_def)
qed

theorem finished_stays_finished_witness:
  "Status (snd (receivedCommitment exampleCollaborators
                  (snd (doCommitmentConsensusCheck fullCoverageRound)) commitmentFromV3))
          SrCommitment = SsFinished
   \<and> fst (doCommitmentConsensusCheck
            (snd (receivedCommitment exampleCollaborators
                    (snd (doCommitmentConsensusCheck fullCoverageRound)) commitmentFromV3)))"
proof -
  let ?finished = "snd (doCommitmentConsensusCheck fullCoverageRound)"
  let ?later = "snd (receivedCommitment exampleCollaborators ?finished commitmentFromV3)"
  have fin: "Status ?finished SrCommitment = SsFinished"
    by (simp add: example_check_full Status_def)
  have run: "commitmentRun ?finished ?later" by (intro run_received run_start)
  have live: "\<not> RoundCanceled ?later"
    by (simp add: receivedCommitment_frame doCommitmentConsensusCheck_frame example_defs)
  from finished_stays_finished [OF fin run] live show ?thesis by simp
qed

text \<open>
  C6: whenever \<^verbatim>\<open>RoundCanceled\<close> is true the commitment subround's check returns false
  and performs no status transition; the operations of the subround never clear the flag
  nor touch a status afterwards, so this holds for the remainder of the round.
\<close>

theorem canceled_check_returns_false:
  assumes "RoundCanceled sr0" and "commitmentRun sr0 sr"
  shows "doCommitmentConsensusCheck sr = (False, sr) \<and> RoundCanceled sr \<and> status sr = status sr0"
  using commitmentRun_canceled [OF assms(2,1)]
  by (simp add: doCommitmentConsensusCheck_canceled)

theorem canceled_check_returns_false_witness:
  "doCommitmentConsensusCheck canceledAfterFinish = (False, canceledAfterFinish)
   \<and> fst (doCommitmentConsensusCheck
            (snd (doCommitmentJob exampleCollaborators canceledAfterFinish))) = False"
proof -
  have canceled: "RoundCanceled canceledAfterFinish" by (simp add: canceledAfterFinish_def)
  have "commitmentRun canceledAfterFinish canceledAfterFinish" by (rule run_start)
  from canceled_check_returns_false [OF canceled this]
  have a: "doCommitmentConsensusCheck canceledAfterFinish = (False, canceledAfterFinish)"
    by simp
  have "commitmentRun canceledAfterFinish
          (snd (doCommitmentJob exampleCollaborators canceledAfterFinish))"
    by (intro run_job run_start)
  from canceled_check_returns_false [OF canceled this] a show ?thesis by simp
qed

section \<open>Duplicate delivery\<close>

text \<open>
  C7: re-delivering a commitment from a sender whose Commitment flag is already true does
  not increase the count used by \<^verbatim>\<open>commitmentsCollected\<close>: the count and the outcome of
  \<^verbatim>\<open>commitmentsCollected\<close> for every threshold are the same after the delivery, and a
  check that returned true returns true again after the duplicate has arrived.
\<close>

theorem duplicate_commitment_not_counted_twice:
  assumes "jobStatus sr (PubKey cnsDta) SrCommitment"
  shows "bitmapCommitmentCount (snd (receivedCommitment env sr cnsDta)) = bitmapCommitmentCount sr
     \<and> commitmentsCollected (snd (receivedCommitment env sr cnsDta)) thresholdArg
         = commitmentsCollected sr thresholdArg
     \<and> (fst (doCommitmentConsensusCheck sr) \<longrightarrow>
          fst (doCommitmentConsensusCheck
                 (snd (receivedCommitment env (snd (doCommitmentConsensusCheck sr)) cnsDta))))"
proof -
  let ?checked = "snd (doCommitmentConsensusCheck sr)"
  have r: "receivedCommitment env sr cnsDta = (False, sr)"
    by (rule receivedCommitment_duplicate [OF assms])
  have "jobStatus ?checked (PubKey cnsDta) SrCommitment"
    using assms by (simp add: doCommitmentConsensusCheck_frame)
  then have r1: "receivedCommitment env ?checked cnsDta = (False, ?checked)"
    by (rule receivedCommitment_duplicate)
  have stay: "fst (doCommitmentConsensusCheck sr) \<longrightarrow> fst (doCommitmentConsensusCheck ?checked)"
    by (simp add: doCommitmentConsensusCheck_def Status_def SetStatus_def)
  from r r1 stay show ?thesis by simp
qed

theorem duplicate_commitment_not_counted_twice_witness:
  "bitmapCommitmentCount fullCoverageRound = 2
   \<and> bitmapCommitmentCount
        (snd (receivedCommitment exampleCollaborators fullCoverageRound commitmentFromV2)) = 2
   \<and> fst (doCommitmentConsensusCheck
            (snd (receivedCommitment exampleCollaborators
                    (snd (doCommitmentConsensusCheck fullCoverageRound)) commitmentFromV2)))"
proof -
  have dup: "jobStatus fullCoverageRound (PubKey commitmentFromV2) SrCommitment"
    by (simp add: example_defs accessor_defs)
  have two: "bitmapCommitmentCount fullCoverageRound = 2"
    by (simp add: example_defs accessor_defs bitmapCommitmentCount_def)
  have ok: "fst (doCommitmentConsensusCheck fullCoverageRound)"
    by (simp add: example_check_full)
  from duplicate_commitment_not_counted_twice [OF dup, of exampleCollaborators] two ok
  show ?thesis by simp
qed

section \<open>Construction of the subround\<close>

text \<open>
  C8: \<^verbatim>\<open>NewSubroundCommitment\<close> returns a nil object together with an error, and builds
  nothing, whenever the subround is nil, the subround's ConsensusState is nil, or the
  send callback is nil; with all of them non-nil and a consensus core that
  \<^verbatim>\<open>ValidateConsensusCore\<close> accepts, it returns the object (the given callback stored, job
  and check bound to the commitment methods) and a nil error.
\<close>

theorem NewSubroundCommitment_nil_dependencies:
  "((subroundPtr = None \<or> (\<exists>sr. subroundPtr = Some sr \<and> srConsensusState sr = None)
       \<or> sendMsg = None)
      \<longrightarrow> (\<exists>err. NewSubroundCommitment ValidateConsensusCore subroundPtr sendMsg extendArg
                    = Inl err))
   \<and> (\<forall>sr. subroundPtr = Some sr \<and> srConsensusState sr \<noteq> None \<and> sendMsg \<noteq> None
          \<and> ValidateConsensusCore (srConsensusCoreHandler sr) = None
      \<longrightarrow> (\<exists>obj. NewSubroundCommitment ValidateConsensusCore subroundPtr sendMsg extendArg
                    = Inr obj
                 \<and> sendConsensusMessageFn obj = sendMsg
                 \<and> jobFn (embeddedSubround obj) = Some DoCommitmentJob
                 \<and> checkFn (embeddedSubround obj) = Some DoCommitmentConsensusCheck
                 \<and> extendFn (embeddedSubround obj) = extendArg))"
  by (auto simp: NewSubroundCommitment_def checkNewSubroundCommitmentParams_def
        split: option.splits)

theorem NewSubroundCommitment_nil_dependencies_witness:
  "NewSubroundCommitment (\<lambda>core :: unit. None) None (Some (\<lambda>msg. True)) None
     = Inl ErrNilSubround
   \<and> NewSubroundCommitment (\<lambda>core. None) (Some exampleSubroundObject) None None
       = Inl ErrNilSendConsensusMessageFunction
   \<and> NewSubroundCommitment (\<lambda>core. None)
        (Some (exampleSubroundObject\<lparr>srConsensusState := None\<rparr>)) (Some (\<lambda>msg. True)) None
       = Inl ErrNilConsensusState
   \<and> \<not> isl (NewSubroundCommitment (\<lambda>core. None) (Some exampleSubroundObject)
               (Some (\<lambda>msg. True)) None)"
proof -
  let ?V = "\<lambda>core :: unit. None :: Error option"
  let ?send = "Some (\<lambda>msg :: Message. True)"
  let ?ext = "None :: (int \<Rightarrow> unit) option"
  note good = NewSubroundCommitment_nil_dependencies
    [of "Some exampleSubroundObject" ?send ?V ?ext, THEN conjunct2, THEN spec,
     of exampleSubroundObject]
  have "srConsensusState exampleSubroundObject \<noteq> None"
    by (simp add: exampleSubroundObject_def)
  with good have "\<exists>obj. NewSubroundCommitment ?V (Some exampleSubroundObject) ?send ?ext = Inr obj"
    by blast
  then have built: "\<not> isl (NewSubroundCommitment ?V (Some exampleSubroundObject) ?send ?ext)"
    by auto
  from NewSubroundCommitment_nil_dependencies [of None ?send ?V ?ext]
  have a: "NewSubroundCommitment ?V None ?send ?ext = Inl ErrNilSubround"
    by (simp add: NewSubroundCommitment_def checkNewSubroundCommitmentParams_def)
  have b: "NewSubroundCommitment ?V (Some exampleSubroundObject) None ?ext
             = Inl ErrNilSendConsensusMessageFunction"
    by (simp add: NewSubroundCommitment_def checkNewSubroundCommitmentParams_def
          exampleSubroundObject_def)
  have c: "NewSubroundCommitment ?V (Some (exampleSubroundObject\<lparr>srConsensusState := None\<rparr>))
             ?send ?ext = Inl ErrNilConsensusState"
    by (simp add: NewSubroundCommitment_def checkNewSubroundCommitmentParams_def)
  from a b c built show ?thesis by simp
qed

section \<open>Coverage of the bitmap\<close>

text \<open>
  C9: \<^verbatim>\<open>commitmentsCollected\<close> returns true only if every consensus-group member whose
  Bitmap job is done also has its Commitment job done, whatever the threshold; a single
  member in the bitmap without a commitment makes it return false for every threshold.
\<close>

theorem commitmentsCollected_covers_bitmap:
  "(commitmentsCollected sr thresholdArg \<longrightarrow>
      (\<forall>node \<in> set (consensusGroup sr).
          IsJobDone sr node SrBitmap \<longrightarrow> IsJobDone sr node SrCommitment))
   \<and> ((\<exists>node \<in> set (consensusGroup sr).
          IsJobDone sr node SrBitmap \<and> \<not> IsJobDone sr node SrCommitment)
        \<longrightarrow> (\<forall>t. \<not> commitmentsCollected sr t))"
  by (auto simp: commitmentsCollected_eq bitmapCovered_def list_all_iff)

theorem commitmentsCollected_covers_bitmap_witness:
  "commitmentsCollected fullCoverageRound 2
   \<and> IsJobDone fullCoverageRound ''v2'' SrCommitment
   \<and> IsJobDone partialCoverageRound ''v3'' SrBitmap
   \<and> \<not> IsJobDone partialCoverageRound ''v3'' SrCommitment
   \<and> \<not> commitmentsCollected partialCoverageRound 0"
proof -
  have a: "commitmentsCollected fullCoverageRound 2"
    by (simp add: example_defs accessor_defs commitmentsCollected_def)
  have b: "IsJobDone partialCoverageRound ''v3'' SrBitmap"
    "\<not> IsJobDone partialCoverageRound ''v3'' SrCommitment"
    by (simp_all add: example_defs accessor_defs)
  have m: "''v2'' \<in> set (consensusGroup fullCoverageRound)"
    "''v3'' \<in> set (consensusGroup partialCoverageRound)"
    by (simp_all add: example_defs)
  have bm: "IsJobDone fullCoverageRound ''v2'' SrBitmap"
    by (simp add: example_defs accessor_defs)
  from commitmentsCollected_covers_bitmap [of fullCoverageRound 2] a m(1) bm
  have c: "IsJobDone fullCoverageRound ''v2'' SrCommitment" by blast
  from commitmentsCollected_covers_bitmap [of partialCoverageRound] b m(2)
  have d: "\<not> commitmentsCollected partialCoverageRound 0" by blast
  from a b c d show ?thesis by simp
qed

section \<open>The metachain shard identifier\<close>

text \<open>
  C10: \<^verbatim>\<open>IsMetaChainShardId\<close> returns true for the empty byte slice, and in general
  returns true exactly when every byte of the identifier equals 255.
\<close>

theorem IsMetaChainShardId_all_255:
  "IsMetaChainShardId [] \<and>
   (IsMetaChainShardId ident \<longleftrightarrow> (\<forall>b \<in> set ident. b = 255))"
  by (induction ident) (auto simp: metaChainIdentifier_def)

theorem IsMetaChainShardId_all_255_witness:
  "IsMetaChainShardId [255, 255, 255] \<and> \<not> IsMetaChainShardId [255, 254]"
  using IsMetaChainShardId_all_255 [of "[255, 255, 255]"]
        IsMetaChainShardId_all_255 [of "[255, 254]"]
  by simp

end
